theory Spec2Isabelle
  imports Main
begin

section \<open>The REST producer for Event Streams (producer.py)\<close>

text \<open>
  Python text is modelled as \<^typ>\<open>string\<close> holding bytes. A text of the response is held
  as its UTF-8 form. A text of the command line is held as the bytes the operating system
  passed: Python decodes them as UTF-8 and turns each byte that is not part of a well-formed
  sequence into a lone surrogate (the surrogateescape handler), so every byte string is such
  a text, and \<^verbatim>\<open>encode()\<close> gives the bytes back when they are UTF-8 and raises otherwise.
  '/' and the ASCII needles the program searches for are single bytes that never occur inside
  a multi-byte sequence, so \<^verbatim>\<open>rstrip('/')\<close> and the substring test agree on bytes and on
  characters. The locale is taken to be a UTF-8 one, and the standard output to accept every
  text handed to \<^verbatim>\<open>print\<close>.
\<close>

subsection \<open>Library: base64 (RFC 4648, as \<^verbatim>\<open>base64.b64encode\<close> computes it)\<close>

definition b64_char :: "nat \<Rightarrow> char" where
  "b64_char n =
     (if n < 26 then char_of (65 + n)
      else if n < 52 then char_of (71 + n)
      else if n < 62 then char_of (n - 4)
      else if n = 62 then CHR ''+'' else CHR ''/'')"

fun b64encode :: "string \<Rightarrow> string" where
  "b64encode [] = []"
| "b64encode [a] =
     (let x = (of_char a :: nat)
      in [b64_char (x div 4), b64_char ((x mod 4) * 16), CHR ''='', CHR ''=''])"
| "b64encode [a, b] =
     (let x = (of_char a :: nat); y = (of_char b :: nat)
      in [b64_char (x div 4), b64_char ((x mod 4) * 16 + y div 16),
          b64_char ((y mod 16) * 4), CHR ''=''])"
| "b64encode (a # b # c # rest) =
     (let x = (of_char a :: nat); y = (of_char b :: nat); z = (of_char c :: nat)
      in [b64_char (x div 4), b64_char ((x mod 4) * 16 + y div 16),
          b64_char ((y mod 16) * 4 + z div 64), b64_char (z mod 64)] @ b64encode rest)"

text \<open>
  The reference decoder the specification speaks of ("decodes (base64) to"): the inverse
  table, four characters to three bytes, with \<open>=\<close> padding in the last group only.
\<close>

definition b64_index :: "char \<Rightarrow> nat option" where
  "b64_index c =
     (let n = (of_char c :: nat)
      in if 65 \<le> n \<and> n \<le> 90 then Some (n - 65)
         else if 97 \<le> n \<and> n \<le> 122 then Some (n - 71)
         else if 48 \<le> n \<and> n \<le> 57 then Some (n + 4)
         else if c = CHR ''+'' then Some 62
         else if c = CHR ''/'' then Some 63
         else None)"

fun b64decode :: "string \<Rightarrow> string option" where
  "b64decode [] = Some []"
| "b64decode [c1, c2, c3, c4] =
     (if c3 = CHR ''='' \<and> c4 = CHR ''='' then
        (case (b64_index c1, b64_index c2) of
           (Some s1, Some s2) \<Rightarrow> Some [char_of (s1 * 4 + s2 div 16)]
         | _ \<Rightarrow> None)
      else if c4 = CHR ''='' then
        (case (b64_index c1, b64_index c2, b64_index c3) of
           (Some s1, Some s2, Some s3) \<Rightarrow>
             Some [char_of (s1 * 4 + s2 div 16), char_of ((s2 mod 16) * 16 + s3 div 4)]
         | _ \<Rightarrow> None)
      else
        (case (b64_index c1, b64_index c2, b64_index c3, b64_index c4) of
           (Some s1, Some s2, Some s3, Some s4) \<Rightarrow>
             Some [char_of (s1 * 4 + s2 div 16), char_of ((s2 mod 16) * 16 + s3 div 4),
                   char_of ((s3 mod 4) * 64 + s4)]
         | _ \<Rightarrow> None))"
| "b64decode (c1 # c2 # c3 # c4 # rest) =
     (case (b64_index c1, b64_index c2, b64_index c3, b64_index c4) of
        (Some s1, Some s2, Some s3, Some s4) \<Rightarrow>
          (case b64decode rest of
             Some bs \<Rightarrow>
               Some (char_of (s1 * 4 + s2 div 16) # char_of ((s2 mod 16) * 16 + s3 div 4) #
                     char_of ((s3 mod 4) * 64 + s4) # bs)
           | None \<Rightarrow> None)
      | _ \<Rightarrow> None)"
| "b64decode _ = None"

subsection \<open>Python values\<close>

text \<open>
  What \<^verbatim>\<open>response.json()\<close> returns. A JSON number with a fraction or an exponent is a
  Python float; the program only tests its truth value and prints it, so \<open>JFloat\<close> carries
  whether it is non-zero and its \<^verbatim>\<open>repr\<close>. An object is a dict: its items in insertion
  order. A text with a lone surrogate, which a JSON escape can give, has no UTF-8 form and
  no value here; what is proved about the line printed for a body is proved for bodies with
  ASCII texts.
\<close>

datatype json =
    JNull
  | JBool bool
  | JInt int
  | JFloat bool string
  | JStr string
  | JArr "json list"
  | JObj "(string \<times> json) list"

fun digits :: "nat \<Rightarrow> string" where
  "digits n = (if n < 10 then [char_of (48 + n)] else digits (n div 10) @ [char_of (48 + n mod 10)])"

definition str_int :: "int \<Rightarrow> string" where
  "str_int i = (if i < 0 then CHR ''-'' # digits (nat (- i)) else digits (nat i))"

fun join :: "string \<Rightarrow> string list \<Rightarrow> string" where
  "join sep [] = []"
| "join sep [x] = x"
| "join sep (x # y # ys) = x @ sep @ join sep (y # ys)"

definition hex_digit :: "nat \<Rightarrow> char" where
  "hex_digit n = (if n < 10 then char_of (48 + n) else char_of (87 + n))"

text \<open>
  \<^verbatim>\<open>repr\<close> of a str: double quotes when the text has a single quote and no double quote,
  single quotes otherwise; backslash, the quote and control characters escaped. Bytes from
  0x80 on belong to non-ASCII characters and are kept, as Python keeps every printable
  character; Python escapes a non-ASCII character that is not printable, so beyond ASCII
  this is \<^verbatim>\<open>repr\<close> for printable text only.
\<close>

definition repr_char :: "char \<Rightarrow> char \<Rightarrow> string" where
  "repr_char q c =
     (let n = (of_char c :: nat)
      in if c = q \<or> c = CHR 0x5C then [CHR 0x5C, c]
         else if n = 9 then [CHR 0x5C, CHR ''t'']
         else if n = 10 then [CHR 0x5C, CHR ''n'']
         else if n = 13 then [CHR 0x5C, CHR ''r'']
         else if n < 32 \<or> n = 127 then [CHR 0x5C, CHR ''x'', hex_digit (n div 16), hex_digit (n mod 16)]
         else [c])"

definition repr_str :: "string \<Rightarrow> string" where
  "repr_str s =
     (let q = (if CHR 0x27 \<in> set s \<and> CHR 0x22 \<notin> set s then CHR 0x22 else CHR 0x27)
      in [q] @ concat (map (repr_char q) s) @ [q])"

fun repr :: "json \<Rightarrow> string" where
  "repr JNull = ''None''"
| "repr (JBool b) = (if b then ''True'' else ''False'')"
| "repr (JInt i) = str_int i"
| "repr (JFloat nz r) = r"
| "repr (JStr s) = repr_str s"
| "repr (JArr xs) = ''['' @ join '', '' (map repr xs) @ '']''"
| "repr (JObj kvs) =
     ''{'' @ join '', '' (map (\<lambda>kv. repr_str (fst kv) @ '': '' @ repr (snd kv)) kvs) @ ''}''"

text \<open>\<^verbatim>\<open>str(v)\<close>, which an f-string applies: a str is itself, everything else its repr.\<close>

definition str :: "json \<Rightarrow> string" where
  "str v = (case v of JStr s \<Rightarrow> s | _ \<Rightarrow> repr v)"

definition truthy :: "json \<Rightarrow> bool" where
  "truthy v =
     (case v of
        JNull \<Rightarrow> False
      | JBool b \<Rightarrow> b
      | JInt i \<Rightarrow> i \<noteq> 0
      | JFloat nz r \<Rightarrow> nz
      | JStr s \<Rightarrow> s \<noteq> []
      | JArr xs \<Rightarrow> xs \<noteq> []
      | JObj kvs \<Rightarrow> kvs \<noteq> [])"

definition type_name :: "json \<Rightarrow> string" where
  "type_name v =
     (case v of
        JNull \<Rightarrow> ''NoneType''
      | JBool b \<Rightarrow> ''bool''
      | JInt i \<Rightarrow> ''int''
      | JFloat nz r \<Rightarrow> ''float''
      | JStr s \<Rightarrow> ''str''
      | JArr xs \<Rightarrow> ''list''
      | JObj kvs \<Rightarrow> ''dict'')"

subsection \<open>HTTP exchange and exceptions\<close>

datatype http_method = POST

record request =
  http_method :: http_method
  url :: string
  headers :: "(string \<times> string) list"
  payload :: json
  verify :: bool
  timeout :: int

text \<open>
  A \<^verbatim>\<open>requests.Response\<close>: \<open>resp_json\<close> is what \<^verbatim>\<open>response.json()\<close> does with the body,
  \<open>Inr\<close> the parsed value or \<open>Inl\<close> the error: the body is not JSON, or it holds an
  integer with more digits than \<^verbatim>\<open>int()\<close> converts. Each comes with its message.
\<close>

datatype json_error = NotJSON string | DigitLimit string

record response =
  status_code :: int
  reason :: string
  resp_url :: string
  resp_text :: string
  resp_json :: "json_error + json"

text \<open>
  The exceptions that reach the handlers of the program, each with the text \<^verbatim>\<open>str(e)\<close>
  gives; a \<open>RequestException\<close> also has its \<^verbatim>\<open>response\<close> attribute.
\<close>

datatype exn =
    RequestException string "response option"
  | KeyboardInterrupt
  | TypeError string
  | AttributeError string
  | KeyError string
  | IndexError string
  | ValueError string
  | UnicodeEncodeError string

definition str_exn :: "exn \<Rightarrow> string" where
  "str_exn e =
     (case e of
        RequestException msg r \<Rightarrow> msg
      | KeyboardInterrupt \<Rightarrow> []
      | TypeError msg \<Rightarrow> msg
      | AttributeError msg \<Rightarrow> msg
      | KeyError msg \<Rightarrow> msg
      | IndexError msg \<Rightarrow> msg
      | ValueError msg \<Rightarrow> msg
      | UnicodeEncodeError msg \<Rightarrow> msg)"

text \<open>
  What one call of \<^verbatim>\<open>requests.post\<close> does: it raises or it returns a response. The network
  is the script of these outcomes, the n-th entry answering the n-th call (from 0).
\<close>

datatype post_outcome = Raises exn | Returns response

type_synonym network = "nat \<Rightarrow> post_outcome"

text \<open>
  \<^verbatim>\<open>Response.raise_for_status\<close> of the requests library: an HTTPError for a status from
  400 to 599, nothing for any other status.
\<close>

definition raise_for_status :: "response \<Rightarrow> exn option" where
  "raise_for_status r =
     (if 400 \<le> status_code r \<and> status_code r < 500 then
        Some (RequestException
                (str_int (status_code r) @ '' Client Error: '' @ reason r @ '' for url: '' @ resp_url r)
                (Some r))
      else if 500 \<le> status_code r \<and> status_code r < 600 then
        Some (RequestException
                (str_int (status_code r) @ '' Server Error: '' @ reason r @ '' for url: '' @ resp_url r)
                (Some r))
      else None)"

text \<open>
  \<^verbatim>\<open>Response.json\<close>: a body that is not JSON raises the library's JSONDecodeError, a
  RequestException without a response; the digit limit raises a plain ValueError.
\<close>

definition response_json :: "response \<Rightarrow> exn + json" where
  "response_json r =
     (case resp_json r of
        Inl (NotJSON msg) \<Rightarrow> Inl (RequestException msg None)
      | Inl (DigitLimit msg) \<Rightarrow> Inl (ValueError msg)
      | Inr v \<Rightarrow> Inr v)"

subsection \<open>Operations of the interpreter on parsed values\<close>

text \<open>
  Each operation returns its value or the exception the interpreter raises, with the
  message CPython 3.11 and later give it; the program only passes the message on to the
  error stream.
\<close>

fun contains_str :: "string \<Rightarrow> string \<Rightarrow> bool" where
  "contains_str p [] = (p = [])"
| "contains_str p (c # cs) = (take (length p) (c # cs) = p \<or> contains_str p cs)"

text \<open>\<^verbatim>\<open>key in v\<close>: a key of a dict, an element of a list, a substring of a str.\<close>

definition py_in :: "string \<Rightarrow> json \<Rightarrow> exn + bool" where
  "py_in key v =
     (case v of
        JObj kvs \<Rightarrow> Inr (key \<in> set (map fst kvs))
      | JArr xs \<Rightarrow> Inr (JStr key \<in> set xs)
      | JStr s \<Rightarrow> Inr (contains_str key s)
      | _ \<Rightarrow> Inl (TypeError (''argument of type '' @ [CHR 0x27] @ type_name v @ [CHR 0x27]
                               @ '' is not iterable'')))"

text \<open>\<^verbatim>\<open>v[key]\<close> with a str key.\<close>

definition getitem :: "json \<Rightarrow> string \<Rightarrow> exn + json" where
  "getitem v key =
     (case v of
        JObj kvs \<Rightarrow> (case map_of kvs key of Some x \<Rightarrow> Inr x | None \<Rightarrow> Inl (KeyError (repr_str key)))
      | JArr xs \<Rightarrow> Inl (TypeError ''list indices must be integers or slices, not str'')
      | JStr s \<Rightarrow>
          Inl (TypeError (''string indices must be integers, not '' @ [CHR 0x27] @ ''str'' @ [CHR 0x27]))
      | _ \<Rightarrow> Inl (TypeError ([CHR 0x27] @ type_name v @ [CHR 0x27] @ '' object is not subscriptable'')))"

text \<open>
  The number of characters of a text: the bytes of its UTF-8 form that do not continue a
  character (continuation bytes are 0x80 to 0xBF).
\<close>

definition continuation :: "char \<Rightarrow> bool" where
  "continuation c = (128 \<le> (of_char c :: nat) \<and> (of_char c :: nat) < 192)"

definition str_len :: "string \<Rightarrow> nat" where
  "str_len s = length (filter (\<lambda>c. \<not> continuation c) s)"

text \<open>\<^verbatim>\<open>len(v)\<close>.\<close>

definition py_len :: "json \<Rightarrow> exn + nat" where
  "py_len v =
     (case v of
        JObj kvs \<Rightarrow> Inr (length kvs)
      | JArr xs \<Rightarrow> Inr (length xs)
      | JStr s \<Rightarrow> Inr (str_len s)
      | _ \<Rightarrow> Inl (TypeError (''object of type '' @ [CHR 0x27] @ type_name v @ [CHR 0x27]
                               @ '' has no len()'')))"

text \<open>\<^verbatim>\<open>v[0]\<close>: the first element of a list, the first character of a str, the key 0 of a dict.\<close>

definition getitem0 :: "json \<Rightarrow> exn + json" where
  "getitem0 v =
     (case v of
        JArr xs \<Rightarrow> (case xs of [] \<Rightarrow> Inl (IndexError ''list index out of range'') | x # _ \<Rightarrow> Inr x)
      | JStr s \<Rightarrow>
          (case s of
             [] \<Rightarrow> Inl (IndexError ''string index out of range'')
           | c # cs \<Rightarrow>
               Inr (JStr (c # takeWhile continuation cs)))
      | JObj kvs \<Rightarrow> Inl (KeyError ''0'')
      | _ \<Rightarrow> Inl (TypeError ([CHR 0x27] @ type_name v @ [CHR 0x27] @ '' object is not subscriptable'')))"

text \<open>\<^verbatim>\<open>v.get(key, default)\<close>: only a dict has the method.\<close>

definition py_get :: "json \<Rightarrow> string \<Rightarrow> json \<Rightarrow> exn + json" where
  "py_get v key dflt =
     (case v of
        JObj kvs \<Rightarrow> (case map_of kvs key of Some x \<Rightarrow> Inr x | None \<Rightarrow> Inr dflt)
      | _ \<Rightarrow> Inl (AttributeError ([CHR 0x27] @ type_name v @ [CHR 0x27]
                                    @ '' object has no attribute '' @ [CHR 0x27] @ ''get'' @ [CHR 0x27])))"

subsection \<open>Text of the command line\<close>

text \<open>
  The length of the well-formed UTF-8 sequence at the head of the bytes (RFC 3629: no
  overlong form, no surrogate, nothing beyond U+10FFFF), or 0 when there is none.
\<close>

definition between :: "nat \<Rightarrow> nat \<Rightarrow> char \<Rightarrow> bool" where
  "between lo hi c = (lo \<le> (of_char c :: nat) \<and> (of_char c :: nat) \<le> hi)"

definition utf8_head :: "string \<Rightarrow> nat" where
  "utf8_head s =
     (case s of
        [] \<Rightarrow> 0
      | a # bs \<Rightarrow>
          (let x = (of_char a :: nat)
           in if x < 0x80 then 1
              else if 0xC2 \<le> x \<and> x \<le> 0xDF then
                (case bs of b # _ \<Rightarrow> if continuation b then 2 else 0 | _ \<Rightarrow> 0)
              else if 0xE0 \<le> x \<and> x \<le> 0xEF then
                (case bs of
                   b # c # _ \<Rightarrow>
                     if (if x = 0xE0 then between 0xA0 0xBF b
                         else if x = 0xED then between 0x80 0x9F b
                         else continuation b) \<and> continuation c
                     then 3 else 0
                 | _ \<Rightarrow> 0)
              else if 0xF0 \<le> x \<and> x \<le> 0xF4 then
                (case bs of
                   b # c # d # _ \<Rightarrow>
                     if (if x = 0xF0 then between 0x90 0xBF b
                         else if x = 0xF4 then between 0x80 0x8F b
                         else continuation b) \<and> continuation c \<and> continuation d
                     then 4 else 0
                 | _ \<Rightarrow> 0)
              else 0))"

text \<open>
  The characters of a text of the command line: a well-formed sequence is one character, any
  other byte is escaped on its own as the lone surrogate U+DC00 + byte.
\<close>

datatype pychar = Char string | Escaped char

function decode :: "string \<Rightarrow> pychar list" where
  "decode s =
     (if s = [] then []
      else if utf8_head s = 0 then Escaped (hd s) # decode (tl s)
      else Char (take (utf8_head s) s) # decode (drop (utf8_head s) s))"
  by pat_completeness auto
termination
  by (relation "measure length") auto

definition is_escaped :: "pychar \<Rightarrow> bool" where
  "is_escaped c = (case c of Escaped b \<Rightarrow> True | Char bs \<Rightarrow> False)"

definition utf8_valid :: "string \<Rightarrow> bool" where
  "utf8_valid s = (\<not> list_ex is_escaped (decode s))"

text \<open>
  \<^verbatim>\<open>str.encode()\<close>, UTF-8 and strict: the bytes of the text, or a UnicodeEncodeError that
  names the first run of surrogates by its position, and the surrogate when it is alone.
\<close>

definition encode_error :: "pychar list \<Rightarrow> string" where
  "encode_error cs =
     (let start = length (takeWhile (\<lambda>c. \<not> is_escaped c) cs);
          bad = takeWhile is_escaped (dropWhile (\<lambda>c. \<not> is_escaped c) cs)
      in [CHR 0x27] @ ''utf-8'' @ [CHR 0x27] @ '' codec can'' @ [CHR 0x27] @ ''t encode ''
           @ (case bad of
                [Escaped b] \<Rightarrow>
                  ''character '' @ [CHR 0x27, CHR 0x5C] @ ''udc''
                    @ [hex_digit ((of_char b :: nat) div 16), hex_digit ((of_char b :: nat) mod 16)]
                    @ [CHR 0x27] @ '' in position '' @ str_int (int start)
              | _ \<Rightarrow>
                  ''characters in position '' @ str_int (int start) @ ''-''
                    @ str_int (int (start + length bad) - 1))
           @ '': surrogates not allowed'')"

definition encode :: "string \<Rightarrow> exn + string" where
  "encode s =
     (if utf8_valid s then Inr s else Inl (UnicodeEncodeError (encode_error (decode s))))"

subsection \<open>The program\<close>

text \<open>
  What the process has done: the text of each \<^verbatim>\<open>print\<close> to the standard output and to the
  error stream, in order, and the requests handed to \<^verbatim>\<open>requests.post\<close>.
\<close>

record world =
  stdout :: "string list"
  stderr :: "string list"
  sent :: "request list"

record run = world +
  exit_code :: int

definition print :: "string \<Rightarrow> world \<Rightarrow> world" where
  "print s w = w\<lparr>stdout := stdout w @ [s]\<rparr>"

definition eprint :: "string \<Rightarrow> world \<Rightarrow> world" where
  "eprint s w = w\<lparr>stderr := stderr w @ [s]\<rparr>"

definition rocket :: string where "rocket = [CHR 0xF0, CHR 0x9F, CHR 0x9A, CHR 0x80]"
definition check_mark :: string where "check_mark = [CHR 0xE2, CHR 0x9C, CHR 0x85]"
definition cross_mark :: string where "cross_mark = [CHR 0xE2, CHR 0x9D, CHR 0x8C]"
definition warning_sign :: string where
  "warning_sign = [CHR 0xE2, CHR 0x9A, CHR 0xA0, CHR 0xEF, CHR 0xB8, CHR 0x8F]"

definition rstrip :: "char \<Rightarrow> string \<Rightarrow> string" where
  "rstrip c s = rev (dropWhile (\<lambda>x. x = c) (rev s))"

text \<open>
  The three statements of the \<^verbatim>\<open>try\<close> block (lines 46 to 48) on the outcome of the call:
  the call itself, \<^verbatim>\<open>raise_for_status\<close>, \<^verbatim>\<open>json\<close>.
\<close>

definition try_block :: "post_outcome \<Rightarrow> exn + json" where
  "try_block outcome =
     (case outcome of
        Raises e \<Rightarrow> Inl e
      | Returns response \<Rightarrow>
          (case raise_for_status response of
             Some e \<Rightarrow> Inl e
           | None \<Rightarrow> response_json response))"

text \<open>The handler (lines 49 to 53); it catches a RequestException only.\<close>

definition except_block :: "exn \<Rightarrow> world \<Rightarrow> world" where
  "except_block e w =
     (case e of
        RequestException msg r \<Rightarrow>
          (let w1 = eprint (cross_mark @ '' REST API error: '' @ msg) w
           in case r of
                Some resp \<Rightarrow>
                  eprint (''   Response: '' @ resp_text resp)
                    (eprint (''   Status: '' @ str_int (status_code resp)) w1)
              | None \<Rightarrow> w1)
      | _ \<Rightarrow> w)"

definition produce_message_rest ::
  "network \<Rightarrow> string \<Rightarrow> string \<Rightarrow> string \<Rightarrow> string \<Rightarrow> string \<Rightarrow> world \<Rightarrow> (exn + json) \<times> world"
where
  "produce_message_rest net rest_api_url topic username password message w =
     (let url = rest_api_url @ ''/topics/'' @ topic @ ''/records'';
          credentials = username @ '':'' @ password
      in case encode credentials of
           Inl e \<Rightarrow> (Inl e, w)
         | Inr bytes \<Rightarrow>
             (let auth_header = b64encode bytes;
                  headers = [(''Content-Type'', ''application/json''),
                             (''Authorization'', ''Basic '' @ auth_header)];
                  payload = JObj [(''records'', JArr [JObj [(''value'', JStr message)]])];
                  w1 = w\<lparr>sent := sent w @
                         [\<lparr>http_method = POST, url = url, headers = headers, payload = payload,
                           verify = False, timeout = 30\<rparr>]\<rparr>
              in case try_block (net (length (sent w))) of
                   Inr result \<Rightarrow> (Inr result, w1)
                 | Inl e \<Rightarrow> (Inl e, except_block e w1)))"

text \<open>The namespace \<^verbatim>\<open>parse_args\<close> returns.\<close>

record args =
  topic :: string
  rest_api_url :: string
  username :: string
  password :: string
  message :: string
  count :: int

definition delivered :: "int \<Rightarrow> string \<Rightarrow> json \<Rightarrow> json \<Rightarrow> string" where
  "delivered i tp part offset =
     check_mark @ '' Message '' @ str_int (i + 1) @ '' delivered to '' @ tp
       @ '' [partition '' @ str part @ ''] at offset '' @ str offset"

text \<open>
  The \<^verbatim>\<open>if\<close>/\<^verbatim>\<open>elif\<close>/\<^verbatim>\<open>else\<close> of the loop body on the parsed response: the line to
  print, or the exception one of the probes raises. \<^verbatim>\<open>and\<close> stops at the first falsy operand.
\<close>

definition has_metadata :: "json \<Rightarrow> exn + bool" where
  "has_metadata result = (if truthy result then py_in ''metadata'' result else Inr False)"

definition has_offsets :: "json \<Rightarrow> exn + bool" where
  "has_offsets result =
     (if truthy result then
        (case py_in ''offsets'' result of
           Inl e \<Rightarrow> Inl e
         | Inr False \<Rightarrow> Inr False
         | Inr True \<Rightarrow>
             (case getitem result ''offsets'' of
                Inl e \<Rightarrow> Inl e
              | Inr offsets \<Rightarrow>
                  (case py_len offsets of Inl e \<Rightarrow> Inl e | Inr n \<Rightarrow> Inr (n > 0))))
      else Inr False)"

definition partition_offset_line :: "int \<Rightarrow> string \<Rightarrow> json \<Rightarrow> exn + string" where
  "partition_offset_line i tp info =
     (case py_get info ''partition'' (JStr ''?'') of
        Inl e \<Rightarrow> Inl e
      | Inr part \<Rightarrow>
          (case py_get info ''offset'' (JStr ''?'') of
             Inl e \<Rightarrow> Inl e
           | Inr offset \<Rightarrow> Inr (delivered i tp part offset)))"

definition report :: "int \<Rightarrow> string \<Rightarrow> json \<Rightarrow> exn + string" where
  "report i tp result =
     (case has_metadata result of
        Inl e \<Rightarrow> Inl e
      | Inr True \<Rightarrow>
          (case getitem result ''metadata'' of
             Inl e \<Rightarrow> Inl e
           | Inr metadata \<Rightarrow> partition_offset_line i tp metadata)
      | Inr False \<Rightarrow>
          (case has_offsets result of
             Inl e \<Rightarrow> Inl e
           | Inr True \<Rightarrow>
               (case getitem result ''offsets'' of
                  Inl e \<Rightarrow> Inl e
                | Inr offsets \<Rightarrow>
                    (case getitem0 offsets of
                       Inl e \<Rightarrow> Inl e
                     | Inr offset_info \<Rightarrow> partition_offset_line i tp offset_info))
           | Inr False \<Rightarrow>
               Inr (check_mark @ '' Message '' @ str_int (i + 1) @ '' sent (response: ''
                      @ str result @ '')'')))"

definition msg_text :: "args \<Rightarrow> int \<Rightarrow> string" where
  "msg_text a i =
     (if count a = 1 then message a
      else message a @ '' ('' @ str_int (i + 1) @ ''/'' @ str_int (count a) @ '')'')"

definition iteration :: "network \<Rightarrow> args \<Rightarrow> string \<Rightarrow> int \<Rightarrow> world \<Rightarrow> (exn + unit) \<times> world" where
  "iteration net a base_url i w =
     (let msg = msg_text a i
      in case produce_message_rest net base_url (topic a) (username a) (password a) msg w of
           (Inl e, w') \<Rightarrow> (Inl e, w')
         | (Inr result, w') \<Rightarrow>
             (case report i (topic a) result of
                Inl e \<Rightarrow> (Inl e, w')
              | Inr line \<Rightarrow> (Inr (), print line w')))"

text \<open>\<^verbatim>\<open>for i in range(args.count)\<close>, from \<open>i\<close> on; an exception leaves the loop.\<close>

function loop :: "network \<Rightarrow> args \<Rightarrow> string \<Rightarrow> int \<Rightarrow> world \<Rightarrow> (exn + unit) \<times> world" where
  "loop net a base_url i w =
     (if i < count a then
        (case iteration net a base_url i w of
           (Inl e, w') \<Rightarrow> (Inl e, w')
         | (Inr u, w') \<Rightarrow> loop net a base_url (i + 1) w')
      else (Inr (), w))"
  by pat_completeness auto
termination
  by (relation "measure (\<lambda>(net, a, base_url, i, w). nat (count a - i))") auto

text \<open>The process ends with a status; \<^verbatim>\<open>sys.exit(1)\<close> is \<open>exit_with 1\<close>.\<close>

definition exit_with :: "int \<Rightarrow> world \<Rightarrow> run" where
  "exit_with c w = \<lparr>stdout = stdout w, stderr = stderr w, sent = sent w, exit_code = c\<rparr>"

text \<open>The banner (lines 70 to 74), printed before anything is sent.\<close>

definition banner :: "args \<Rightarrow> string \<Rightarrow> world" where
  "banner a base_url =
     print []
       (print (''   Username: '' @ username a)
         (print (''   REST API: '' @ base_url)
           (print (''   Topic: '' @ topic a)
             (print (rocket @ '' Producing messages via REST API...'')
                \<lparr>stdout = [], stderr = [], sent = []\<rparr>))))"

text \<open>The body of \<^verbatim>\<open>main\<close> after the arguments are parsed (lines 67 to 103).\<close>

definition main_body :: "args \<Rightarrow> network \<Rightarrow> run" where
  "main_body a net =
     (let base_url = rstrip CHR ''/'' (rest_api_url a)
      in case loop net a base_url 0 (banner a base_url) of
           (Inr u, w) \<Rightarrow> exit_with 0 (print (check_mark @ '' All messages sent and delivered'') w)
         | (Inl KeyboardInterrupt, w) \<Rightarrow>
             exit_with 1 (print ([CHR 0x0A] @ warning_sign @ ''  Interrupted'') w)
         | (Inl e, w) \<Rightarrow> exit_with 1 (eprint (cross_mark @ '' Error: '' @ str_exn e) w))"

subsection \<open>Argument parsing\<close>

text \<open>
  The command line as \<^verbatim>\<open>argparse\<close> reads it: for each flag the text given to it, as
  \<^verbatim>\<open>--flag text\<close> or \<^verbatim>\<open>--flag=text\<close>, or \<open>None\<close> when the flag is absent (a text that
  \<^verbatim>\<open>argparse\<close> takes for an option, such as \<^verbatim>\<open>-x\<close>, can only be given in the second form). For
  \<^verbatim>\<open>--count\<close> (\<^verbatim>\<open>type=int\<close>) the text comes with what \<^verbatim>\<open>int()\<close> makes of it: the
  integer it denotes, or a ValueError. \<open>arg_help\<close> is \<open>Some h\<close> when the parser comes to
  \<^verbatim>\<open>-h\<close> or \<^verbatim>\<open>--help\<close>, which \<^verbatim>\<open>ArgumentParser\<close> adds by itself, \<open>h\<close> being the help
  text it writes; the parser does not come to a help flag that stands behind a malformed
  \<^verbatim>\<open>--count\<close>.
\<close>

datatype count_text = Literal int | Malformed string

record invocation =
  arg_help :: "string option"
  arg_topic :: "string option"
  arg_rest_api_url :: "string option"
  arg_username :: "string option"
  arg_password :: "string option"
  arg_message :: "string option"
  arg_count :: "count_text option"

text \<open>
  \<^verbatim>\<open>parser.parse_args()\<close> returns the namespace or ends the process: the help action writes
  the help text to the standard output and exits with status 0, \<^verbatim>\<open>parser.error\<close> exits
  with status 2. Flags are handled as they are read, the help action and the conversion of
  \<^verbatim>\<open>--count\<close> among them; the required flags are checked at the end.
\<close>

datatype parse_outcome = Help string | UsageError string | Namespace args

definition parse_args :: "invocation \<Rightarrow> parse_outcome" where
  "parse_args cmd =
     (case arg_help cmd of
        Some h \<Rightarrow> Help h
      | None \<Rightarrow>
          (case arg_count cmd of
             Some (Malformed s) \<Rightarrow> UsageError (''argument --count: invalid int value: '' @ repr_str s)
           | c \<Rightarrow>
               (let missing =
                      (if arg_topic cmd = None then [''--topic''] else [])
                    @ (if arg_rest_api_url cmd = None then [''--rest-api-url''] else [])
                    @ (if arg_username cmd = None then [''--username''] else [])
                    @ (if arg_password cmd = None then [''--password''] else [])
                in case (arg_topic cmd, arg_rest_api_url cmd, arg_username cmd, arg_password cmd) of
                     (Some t, Some u, Some n, Some p) \<Rightarrow>
                       Namespace
                         \<lparr>topic = t, rest_api_url = u, username = n, password = p,
                           message = (case arg_message cmd of Some m \<Rightarrow> m
                                      | None \<Rightarrow> ''Hello from REST API''),
                           count = (case c of Some (Literal k) \<Rightarrow> k | _ \<Rightarrow> 1)\<rparr>
                   | _ \<Rightarrow>
                       UsageError (''the following arguments are required: ''
                                     @ join '', '' missing))))"

text \<open>
  The whole of \<^verbatim>\<open>main\<close>. \<^verbatim>\<open>parser.error\<close> writes the usage synopsis and the message to
  the error stream; the synopsis and the program name in front of the message depend on how
  the script was started and are left out.
\<close>

definition main :: "invocation \<Rightarrow> network \<Rightarrow> run" where
  "main cmd net =
     (case parse_args cmd of
        Help h \<Rightarrow> \<lparr>stdout = [h], stderr = [], sent = [], exit_code = 0\<rparr>
      | UsageError msg \<Rightarrow> \<lparr>stdout = [], stderr = [''error: '' @ msg], sent = [], exit_code = 2\<rparr>
      | Namespace a \<Rightarrow> main_body a net)"

subsection \<open>The interpretation of a response, in the words of the specification\<close>



text \<open>
  The bodies on which the probes of lines 83 to 92 raise nothing: a dict whose \<open>metadata\<close>,
  when present, is a dict, and whose \<open>offsets\<close>, looked at when \<open>metadata\<close> is absent, is
  absent, empty, or a list that starts with a dict; a list or a str that holds neither word;
  and every falsy value.
\<close>

definition is_object :: "json \<Rightarrow> bool" where
  "is_object v = (case v of JObj kvs \<Rightarrow> True | _ \<Rightarrow> False)"

definition tolerated :: "json \<Rightarrow> bool" where
  "tolerated result =
     (case result of
        JObj kvs \<Rightarrow>
          (case map_of kvs ''metadata'' of
             Some v \<Rightarrow> is_object v
           | None \<Rightarrow>
               (case map_of kvs ''offsets'' of
                  None \<Rightarrow> True
                | Some (JArr xs) \<Rightarrow> (case xs of [] \<Rightarrow> True | x # _ \<Rightarrow> is_object x)
                | Some (JStr s) \<Rightarrow> str_len s = 0
                | Some (JObj m) \<Rightarrow> m = []
                | Some v \<Rightarrow> False))
      | JArr xs \<Rightarrow> JStr ''metadata'' \<notin> set xs \<and> JStr ''offsets'' \<notin> set xs
      | JStr s \<Rightarrow> s = [] \<or> (\<not> contains_str ''metadata'' s \<and> \<not> contains_str ''offsets'' s)
      | v \<Rightarrow> \<not> truthy v)"

text \<open>
  The bodies all of whose texts, keys included, are ASCII. On these \<open>repr_str\<close> is
  \<^verbatim>\<open>repr\<close> without reserve, and the standard output takes every line built from them.
\<close>

definition ascii :: "string \<Rightarrow> bool" where
  "ascii s = list_all (\<lambda>c. (of_char c :: nat) < 128) s"

fun ascii_json :: "json \<Rightarrow> bool" where
  "ascii_json JNull = True"
| "ascii_json (JBool b) = True"
| "ascii_json (JInt i) = True"
| "ascii_json (JFloat nz r) = ascii r"
| "ascii_json (JStr s) = ascii s"
| "ascii_json (JArr xs) = list_all ascii_json xs"
| "ascii_json (JObj kvs) = list_all (\<lambda>kv. ascii (fst kv) \<and> ascii_json (snd kv)) kvs"

subsection \<open>Networks used in the examples\<close>

definition always :: "post_outcome \<Rightarrow> network" where
  "always outcome n = outcome"

definition script :: "post_outcome list \<Rightarrow> post_outcome \<Rightarrow> network" where
  "script outcomes rest n = (if n < length outcomes then outcomes ! n else rest)"

definition ok :: "json \<Rightarrow> post_outcome" where
  "ok v = Returns \<lparr>status_code = 200, reason = ''OK'', resp_url = [], resp_text = [],
                   resp_json = Inr v\<rparr>"

declare loop.simps [simp del]
declare decode.simps [simp del]


section \<open>Properties\<close>

subsection \<open>base64\<close>

lemma b64_alphabet:
  "map b64_char [0..<64] =
     ''ABCDEFGHIJKLMNOPQRSTUVWXYZabcdefghijklmnopqrstuvwxyz0123456789+/''"
  by code_simp

lemma b64_index_char: "n < 64 \<Longrightarrow> b64_index (b64_char n) = Some n"
  by (auto simp: b64_index_def b64_char_def Let_def)

lemma b64_char_not_pad: "n < 64 \<Longrightarrow> b64_char n \<noteq> CHR ''=''"
  using b64_index_char [of n] by (auto simp: b64_index_def)

lemma of_char_lt_256: "(of_char c :: nat) < 256"
proof -
  have "(of_char c :: nat) mod 256 < 256" by simp
  then show ?thesis by (simp only: of_char_mod_256)
qed


lemma sextet_1: "(x::nat) < 256 \<Longrightarrow> x div 4 < 64"
  by simp

lemma sextet_2: "(y::nat) < 256 \<Longrightarrow> x mod 4 * 16 + y div 16 < 64"
proof -
  assume "y < 256"
  then have "y div 16 < 16" by simp
  moreover have "x mod 4 < 4" by simp
  ultimately show ?thesis by linarith
qed

lemma sextet_3: "(z::nat) < 256 \<Longrightarrow> y mod 16 * 4 + z div 64 < 64"
proof -
  assume "z < 256"
  then have "z div 64 < 4" by simp
  moreover have "y mod 16 < 16" by simp
  ultimately show ?thesis by linarith
qed

lemma byte_1: "(y::nat) < 256 \<Longrightarrow> x div 4 * 4 + (x mod 4 * 16 + y div 16) div 16 = x"
proof -
  assume "y < 256"
  then have "y div 16 < 16" by simp
  then have "(x mod 4 * 16 + y div 16) div 16 = x mod 4" by simp
  then show ?thesis by simp
qed

lemma byte_2:
  "(z::nat) < 256 \<Longrightarrow> (y::nat) < 256 \<Longrightarrow>
   (x mod 4 * 16 + y div 16) mod 16 * 16 + (y mod 16 * 4 + z div 64) div 4 = y"
proof -
  assume "z < 256" "y < 256"
  then have a: "z div 64 < 4" "y div 16 < 16" by simp_all
  then have "(y mod 16 * 4 + z div 64) div 4 = y mod 16" by simp
  moreover have "(x mod 4 * 16 + y div 16) mod 16 = y div 16" using a by simp
  ultimately show ?thesis by simp
qed

lemma byte_3: "(z::nat) < 256 \<Longrightarrow> (y mod 16 * 4 + z div 64) mod 4 * 64 + z mod 64 = z"
proof -
  assume "z < 256"
  then have a: "z div 64 < 4" by simp
  then have "(y mod 16 * 4 + z div 64) mod 4 = z div 64" by simp
  then show ?thesis by simp
qed

lemma sextets:
  fixes x y z :: nat
  assumes "x < 256" "y < 256" "z < 256"
  shows "x div 4 < 64" "x mod 4 * 16 + y div 16 < 64" "y mod 16 * 4 + z div 64 < 64"
    "z mod 64 < 64"
    "x div 4 * 4 + (x mod 4 * 16 + y div 16) div 16 = x"
    "(x mod 4 * 16 + y div 16) mod 16 * 16 + (y mod 16 * 4 + z div 64) div 4 = y"
    "(y mod 16 * 4 + z div 64) mod 4 * 64 + z mod 64 = z"
  using assms sextet_1 [of x] sextet_2 [of y x] sextet_3 [of z y]
    byte_1 [of y x] byte_2 [of z y x] byte_3 [of z y]
  by simp_all

lemma b64decode_b64encode: "b64decode (b64encode s) = Some s"
proof (induction s rule: b64encode.induct)
  case 1
  show ?case by simp
next
  case (2 a)
  note s = sextets [OF of_char_lt_256 [of a], of 0 0, simplified]
  show ?case
    by (simp add: Let_def b64_index_char s)
next
  case (3 a b)
  note s = sextets [OF of_char_lt_256 [of a] of_char_lt_256 [of b], of 0, simplified]
  show ?case
    by (simp add: Let_def b64_index_char b64_char_not_pad s)
next
  case (4 a b c rest)
  note s = sextets [OF of_char_lt_256 [of a] of_char_lt_256 [of b] of_char_lt_256 [of c]]
  define s1 :: nat where "s1 = of_char a div 4"
  define s2 :: nat where "s2 = of_char a mod 4 * 16 + of_char b div 16"
  define s3 :: nat where "s3 = of_char b mod 16 * 4 + of_char c div 64"
  define s4 :: nat where "s4 = of_char c mod 64"
  have bounds: "s1 < 64" "s2 < 64" "s3 < 64" "s4 < 64"
    unfolding s1_def s2_def s3_def s4_def by (rule s)+
  have bytes: "char_of (s1 * 4 + s2 div 16) = a" "char_of (s2 mod 16 * 16 + s3 div 4) = b"
    "char_of (s3 mod 4 * 64 + s4) = c"
    unfolding s1_def s2_def s3_def s4_def by (simp_all only: s char_of_char)
  have enc: "b64encode (a # b # c # rest) =
      b64_char s1 # b64_char s2 # b64_char s3 # b64_char s4 # b64encode rest"
    unfolding s1_def s2_def s3_def s4_def by (simp add: Let_def)
  show ?case
  proof (cases rest)
    case Nil
    then show ?thesis
      unfolding enc by (simp add: b64_index_char b64_char_not_pad bounds bytes)
  next
    case (Cons r rs)
    then obtain e es where "b64encode rest = e # es"
      by (cases rest rule: b64encode.cases) (auto simp: Let_def)
    then show ?thesis
      using 4 unfolding enc by (simp add: b64_index_char b64_char_not_pad bounds bytes)
  qed
qed

subsection \<open>One request, one pass of the loop\<close>

lemma encode_valid: "utf8_valid s \<Longrightarrow> encode s = Inr s"
  by (simp add: encode_def)

lemma encode_invalid: "\<not> utf8_valid s \<Longrightarrow> \<exists>msg. encode s = Inl (UnicodeEncodeError msg)"
  by (simp add: encode_def)

lemma encode_examples:
  "encode ''pp:secret'' =
     Inr ''pp:secret''"
  "encode (''pp:'' @ [CHR 0xFF]) =
     Inl (UnicodeEncodeError
           ([CHR 0x27] @ ''utf-8'' @ [CHR 0x27] @ '' codec can'' @ [CHR 0x27] @ ''t encode character '' @ [CHR 0x27] @ [CHR 0x5C] @ ''udcff'' @ [CHR 0x27] @ '' in position 3: surrogates not allowed''))"
  "encode (''pp:'' @ [CHR 0xFF] @ [CHR 0xFE] @ ''x'') =
     Inl (UnicodeEncodeError
           ([CHR 0x27] @ ''utf-8'' @ [CHR 0x27] @ '' codec can'' @ [CHR 0x27] @ ''t encode characters in position 3-4: surrogates not allowed''))"
  "encode ([CHR 0xC3] @ [CHR 0xA9] @ '':'' @ [CHR 0xED] @ [CHR 0xA0] @ [CHR 0xBD]) =
     Inl (UnicodeEncodeError
           ([CHR 0x27] @ ''utf-8'' @ [CHR 0x27] @ '' codec can'' @ [CHR 0x27] @ ''t encode characters in position 2-4: surrogates not allowed''))"
  by code_simp+

lemma ascii_json_examples:
  "ascii_json (JObj [(''offsets'', JArr [JObj [(''partition'', JInt 1)], JStr ''a b''])])"
  "\<not> ascii_json (JObj [(''k'', JStr [CHR 0xC2, CHR 0xA0])])"
  "\<not> ascii_json (JObj [([CHR 0xC3, CHR 0xA9], JNull)])"
  by code_simp+

lemma pmr_invalid:
  "\<not> utf8_valid (n @ '':'' @ p) \<Longrightarrow>
   \<exists>msg. produce_message_rest net u t n p m w = (Inl (UnicodeEncodeError msg), w)"
  by (simp add: produce_message_rest_def encode_def Let_def)

lemma pmr_fst:
  "utf8_valid (n @ '':'' @ p) \<Longrightarrow>
   fst (produce_message_rest net u t n p m w) = try_block (net (length (sent w)))"
  by (simp add: produce_message_rest_def encode_def Let_def split: sum.splits)

lemma except_block_keeps: "stdout (except_block e w) = stdout w" "sent (except_block e w) = sent w"
  by (simp_all add: except_block_def eprint_def Let_def split: exn.splits option.splits)

lemma pmr_sent:
  "utf8_valid (n @ '':'' @ p) \<Longrightarrow>
   sent (snd (produce_message_rest net u t n p m w)) =
     sent w @ [\<lparr>http_method = POST, url = u @ ''/topics/'' @ t @ ''/records'',
                headers = [(''Content-Type'', ''application/json''),
                           (''Authorization'', ''Basic '' @ b64encode (n @ '':'' @ p))],
                payload = JObj [(''records'', JArr [JObj [(''value'', JStr m)]])],
                verify = False, timeout = 30\<rparr>]"
  by (simp add: produce_message_rest_def encode_def Let_def except_block_keeps split: sum.splits)

lemma pmr_stdout: "stdout (snd (produce_message_rest net u t n p m w)) = stdout w"
  by (simp add: produce_message_rest_def encode_def Let_def except_block_keeps split: sum.splits)

lemma pmr_stderr:
  "utf8_valid (n @ '':'' @ p) \<Longrightarrow>
   stderr (snd (produce_message_rest net u t n p m w)) =
     (case try_block (net (length (sent w))) of
        Inr v \<Rightarrow> stderr w
      | Inl e \<Rightarrow> stderr (except_block e w))"
  by (simp add: produce_message_rest_def encode_def Let_def except_block_def eprint_def
      split: sum.splits exn.splits option.splits)

lemma iteration_invalid:
  "\<not> utf8_valid (username a @ '':'' @ password a) \<Longrightarrow>
   \<exists>msg. iteration net a u i w = (Inl (UnicodeEncodeError msg), w)"
proof -
  assume "\<not> utf8_valid (username a @ '':'' @ password a)"
  then obtain msg where
    "produce_message_rest net u (topic a) (username a) (password a) (msg_text a i) w =
       (Inl (UnicodeEncodeError msg), w)"
    using pmr_invalid by blast
  then show ?thesis by (simp add: iteration_def)
qed

lemma iteration_sent:
  "utf8_valid (username a @ '':'' @ password a) \<Longrightarrow>
   sent (snd (iteration net a u i w)) =
     sent w @ [\<lparr>http_method = POST, url = u @ ''/topics/'' @ topic a @ ''/records'',
                headers = [(''Content-Type'', ''application/json''),
                           (''Authorization'', ''Basic '' @ b64encode (username a @ '':'' @ password a))],
                payload = JObj [(''records'', JArr [JObj [(''value'', JStr (msg_text a i))]])],
                verify = False, timeout = 30\<rparr>]"
proof -
  assume v: "utf8_valid (username a @ '':'' @ password a)"
  obtain r w' where p: "produce_message_rest net u (topic a) (username a) (password a) (msg_text a i) w = (r, w')"
    by (cases "produce_message_rest net u (topic a) (username a) (password a) (msg_text a i) w")
  have sw: "sent w' = sent (snd (produce_message_rest net u (topic a) (username a) (password a) (msg_text a i) w))"
    by (simp add: p)
  show ?thesis
    unfolding iteration_def Let_def p using sw [unfolded pmr_sent [OF v]]
    by (simp add: print_def split: sum.splits)
qed

lemma iteration_fst_stdout_stderr:
  assumes v: "utf8_valid (username a @ '':'' @ password a)"
  shows "fst (iteration net a u i w) =
     (case try_block (net (length (sent w))) of
        Inl e \<Rightarrow> Inl e
      | Inr result \<Rightarrow> (case report i (topic a) result of Inl e \<Rightarrow> Inl e | Inr line \<Rightarrow> Inr ()))"
  and "stdout (snd (iteration net a u i w)) =
     (case try_block (net (length (sent w))) of
        Inl e \<Rightarrow> stdout w
      | Inr result \<Rightarrow> (case report i (topic a) result of Inl e \<Rightarrow> stdout w | Inr line \<Rightarrow> stdout w @ [line]))"
  and "stderr (snd (iteration net a u i w)) =
     (case try_block (net (length (sent w))) of
        Inl e \<Rightarrow> stderr (except_block e w)
      | Inr result \<Rightarrow> stderr w)"
proof -
  obtain r w' where p: "produce_message_rest net u (topic a) (username a) (password a) (msg_text a i) w = (r, w')"
    by (cases "produce_message_rest net u (topic a) (username a) (password a) (msg_text a i) w")
  have r: "r = try_block (net (length (sent w)))"
    using pmr_fst [OF v, of net u "topic a" "msg_text a i" w] by (simp add: p)
  have o: "stdout w' = stdout w"
    using pmr_stdout [of net u "topic a" "username a" "password a" "msg_text a i" w] by (simp add: p)
  have e: "stderr w' = (case try_block (net (length (sent w))) of
        Inr v \<Rightarrow> stderr w
      | Inl e \<Rightarrow> stderr (except_block e w))"
    using pmr_stderr [OF v, of net u "topic a" "msg_text a i" w] by (simp add: p)
  show "fst (iteration net a u i w) =
     (case try_block (net (length (sent w))) of
        Inl e \<Rightarrow> Inl e
      | Inr result \<Rightarrow> (case report i (topic a) result of Inl e \<Rightarrow> Inl e | Inr line \<Rightarrow> Inr ()))"
    unfolding iteration_def Let_def p using r by (simp split: sum.splits)
  show "stdout (snd (iteration net a u i w)) =
     (case try_block (net (length (sent w))) of
        Inl e \<Rightarrow> stdout w
      | Inr result \<Rightarrow> (case report i (topic a) result of Inl e \<Rightarrow> stdout w | Inr line \<Rightarrow> stdout w @ [line]))"
    unfolding iteration_def Let_def p using r o by (simp add: print_def split: sum.splits)
  show "stderr (snd (iteration net a u i w)) =
     (case try_block (net (length (sent w))) of
        Inl e \<Rightarrow> stderr (except_block e w)
      | Inr result \<Rightarrow> stderr w)"
    unfolding iteration_def Let_def p using r e by (simp add: print_def split: sum.splits)
qed


lemma except_block_stderr: "stderr (except_block e w) = stderr w @ stderr (except_block e \<lparr>stdout = [], stderr = [], sent = []\<rparr>)"
  by (simp add: except_block_def eprint_def Let_def split: exn.splits option.splits)

lemma loop_unfold:
  "loop net a u i w =
     (if i < count a then
        (if fst (iteration net a u i w) = Inr () then loop net a u (i + 1) (snd (iteration net a u i w))
         else iteration net a u i w)
      else (Inr (), w))"
  by (subst loop.simps) (auto split: prod.splits sum.splits)

lemma loop_invalid:
  assumes "\<not> utf8_valid (username a @ '':'' @ password a)"
  shows "snd (loop net a u i w) = w"
    and "i < count a \<Longrightarrow> \<exists>msg. fst (loop net a u i w) = Inl (UnicodeEncodeError msg)"
    and "\<not> i < count a \<Longrightarrow> fst (loop net a u i w) = Inr ()"
  using iteration_invalid [OF assms, of net u i w] by (auto simp add: loop_unfold [of net a u i w])



lemma main_body_loop:
  "sent (main_body a net) = sent (snd (loop net a (rstrip CHR ''/'' (rest_api_url a)) 0 (banner a (rstrip CHR ''/'' (rest_api_url a)))))"
  "exit_code (main_body a net) = (case fst (loop net a (rstrip CHR ''/'' (rest_api_url a)) 0 (banner a (rstrip CHR ''/'' (rest_api_url a)))) of Inr u \<Rightarrow> 0 | Inl e \<Rightarrow> 1)"
  "stdout (main_body a net) = stdout (snd (loop net a (rstrip CHR ''/'' (rest_api_url a)) 0 (banner a (rstrip CHR ''/'' (rest_api_url a))))) @
     (case fst (loop net a (rstrip CHR ''/'' (rest_api_url a)) 0 (banner a (rstrip CHR ''/'' (rest_api_url a)))) of
        Inr u \<Rightarrow> [check_mark @ '' All messages sent and delivered'']
      | Inl KeyboardInterrupt \<Rightarrow> [[CHR 0x0A] @ warning_sign @ ''  Interrupted'']
      | Inl e \<Rightarrow> [])"
  "stderr (main_body a net) = stderr (snd (loop net a (rstrip CHR ''/'' (rest_api_url a)) 0 (banner a (rstrip CHR ''/'' (rest_api_url a))))) @
     (case fst (loop net a (rstrip CHR ''/'' (rest_api_url a)) 0 (banner a (rstrip CHR ''/'' (rest_api_url a)))) of
        Inr u \<Rightarrow> []
      | Inl KeyboardInterrupt \<Rightarrow> []
      | Inl e \<Rightarrow> [cross_mark @ '' Error: '' @ str_exn e])"
  by (simp_all add: main_body_def Let_def exit_with_def print_def eprint_def split: prod.splits sum.splits exn.splits)

lemma banner_fields:
  "stdout (banner a b) = [rocket @ '' Producing messages via REST API...'', ''   Topic: '' @ topic a, ''   REST API: '' @ b, ''   Username: '' @ username a, []]"
  "stderr (banner a b) = []" "sent (banner a b) = []"
  by (simp_all add: banner_def print_def)

lemma loop_sent_valid:
  "utf8_valid (username a @ '':'' @ password a) \<Longrightarrow>
   \<exists>m. i \<le> m \<and> m \<le> max i (count a) \<and> (fst (loop net a u i w) = Inr () \<longrightarrow> m = max i (count a)) \<and>
     sent (snd (loop net a u i w)) =
       sent w @ map (\<lambda>k. \<lparr>http_method = POST, url = u @ ''/topics/'' @ topic a @ ''/records'',
                headers = [(''Content-Type'', ''application/json''),
                           (''Authorization'', ''Basic '' @ b64encode (username a @ '':'' @ password a))],
                payload = JObj [(''records'', JArr [JObj [(''value'', JStr (msg_text a k))]])],
                verify = False, timeout = 30\<rparr>) [i..m - 1]"
proof (induction net a u i w rule: loop.induct)
  case (1 net a u i w)
  show ?case
  proof (cases "i < count a")
    case False
    then show ?thesis
      by (intro exI [of _ i]) (simp add: loop_unfold [of net a u i w])
  next
    case True
    show ?thesis
    proof (cases "fst (iteration net a u i w) = Inr ()")
      case False
      then show ?thesis using True "1.prems"
        by (intro exI [of _ "i + 1"]) (simp add: loop_unfold [of net a u i w] iteration_sent)
    next
      case ok: True
      from "1.IH" [of "fst (iteration net a u i w)" "snd (iteration net a u i w)" "()"] True ok "1.prems"
      obtain m where m: "i + 1 \<le> m" "m \<le> max (i + 1) (count a)"
        "fst (loop net a u (i + 1) (snd (iteration net a u i w))) = Inr () \<longrightarrow> m = max (i + 1) (count a)"
        "sent (snd (loop net a u (i + 1) (snd (iteration net a u i w)))) =
          sent (snd (iteration net a u i w)) @ map (\<lambda>k. \<lparr>http_method = POST, url = u @ ''/topics/'' @ topic a @ ''/records'',
                headers = [(''Content-Type'', ''application/json''),
                           (''Authorization'', ''Basic '' @ b64encode (username a @ '':'' @ password a))],
                payload = JObj [(''records'', JArr [JObj [(''value'', JStr (msg_text a k))]])],
                verify = False, timeout = 30\<rparr>) [i + 1..m - 1]"
        by (auto simp: prod_eq_iff)
      have u: "[i..m - 1] = i # [i + 1..m - 1]" using m(1) by (simp add: upto_rec1)
      show ?thesis using True ok m "1.prems"
        by (intro exI [of _ m]) (simp add: loop_unfold [of net a u i w] iteration_sent u)
    qed
  qed
qed

lemma loop_sent:
  "\<exists>m. i \<le> m \<and> m \<le> max i (count a) \<and> (fst (loop net a u i w) = Inr () \<longrightarrow> m = max i (count a)) \<and>
     sent (snd (loop net a u i w)) =
       sent w @ map (\<lambda>k. \<lparr>http_method = POST, url = u @ ''/topics/'' @ topic a @ ''/records'',
                headers = [(''Content-Type'', ''application/json''),
                           (''Authorization'', ''Basic '' @ b64encode (username a @ '':'' @ password a))],
                payload = JObj [(''records'', JArr [JObj [(''value'', JStr (msg_text a k))]])],
                verify = False, timeout = 30\<rparr>) [i..m - 1]"
proof (cases "utf8_valid (username a @ '':'' @ password a)")
  case True
  then show ?thesis by (rule loop_sent_valid)
next
  case False
  show ?thesis
    using loop_invalid [OF False, where net = net and u = u and i = i and w = w]
    by (intro exI [of _ i]) (cases "i < count a", auto)
qed

lemma loop_failure:
  "utf8_valid (username a @ '':'' @ password a) \<Longrightarrow> 0 \<le> i \<Longrightarrow> length (sent w) = nat i \<Longrightarrow> nat i \<le> n \<Longrightarrow>
   n < length (sent (snd (loop net a u i w))) \<Longrightarrow> try_block (net n) = Inl e \<Longrightarrow>
   fst (loop net a u i w) = Inl e \<and> length (sent (snd (loop net a u i w))) = n + 1 \<and>
   stderr (snd (loop net a u i w)) = stderr (except_block e w)"
proof (induction net a u i w rule: loop.induct)
  case (1 net a u i w)
  show ?case
  proof (cases "i < count a")
    case False
    then show ?thesis using "1.prems" by (simp add: loop_unfold [of net a u i w])
  next
    case True
    show ?thesis
    proof (cases "fst (iteration net a u i w) = Inr ()")
      case False
      then have l: "loop net a u i w = iteration net a u i w"
        using True by (simp add: loop_unfold [of net a u i w])
      have "n = nat i" using "1.prems" by (simp add: l iteration_sent)
      then show ?thesis using "1.prems"
        by (simp add: l iteration_sent iteration_fst_stdout_stderr)
    next
      case ok: True
      then have l: "loop net a u i w = loop net a u (i + 1) (snd (iteration net a u i w))"
        using True by (simp add: loop_unfold [of net a u i w])
      have e: "stderr (snd (iteration net a u i w)) = stderr w"
        using ok "1.prems"(1) by (simp add: iteration_fst_stdout_stderr split: sum.splits)
      have ne: "n \<noteq> nat i"
        using ok "1.prems" by (auto simp add: iteration_fst_stdout_stderr split: sum.splits)
      have "fst (loop net a u (i + 1) (snd (iteration net a u i w))) = Inl e \<and>
            length (sent (snd (loop net a u (i + 1) (snd (iteration net a u i w))))) = n + 1 \<and>
            stderr (snd (loop net a u (i + 1) (snd (iteration net a u i w)))) =
              stderr (except_block e (snd (iteration net a u i w)))"
        using True ok ne "1.prems"
        by (intro "1.IH" [of "fst (iteration net a u i w)" "snd (iteration net a u i w)" "()"])
           (auto simp add: prod_eq_iff iteration_sent l nat_add_distrib)
      then show ?thesis
        using e by (simp add: l except_block_stderr [of e w] except_block_stderr [of e "snd (iteration net a u i w)"])
    qed
  qed
qed


lemma main_body_sent:
  "\<exists>m. m \<le> max 0 (count a) \<and> (exit_code (main_body a net) = 0 \<longrightarrow> m = max 0 (count a)) \<and>
     sent (main_body a net) =
       map (\<lambda>k. \<lparr>http_method = POST,
                   url = rstrip CHR ''/'' (rest_api_url a) @ ''/topics/'' @ topic a @ ''/records'',
                   headers = [(''Content-Type'', ''application/json''),
                              (''Authorization'', ''Basic '' @ b64encode (username a @ '':'' @ password a))],
                   payload = JObj [(''records'', JArr [JObj [(''value'', JStr (msg_text a k))]])],
                   verify = False, timeout = 30\<rparr>) [0..m - 1]"
proof -
  let ?u = "rstrip CHR ''/'' (rest_api_url a)"
  from loop_sent [of 0 a net ?u "banner a ?u"]
  obtain m where "0 \<le> m" "m \<le> max 0 (count a)"
    "fst (loop net a ?u 0 (banner a ?u)) = Inr () \<longrightarrow> m = max 0 (count a)"
    "sent (snd (loop net a ?u 0 (banner a ?u))) =
       sent (banner a ?u) @
       map (\<lambda>k. \<lparr>http_method = POST, url = ?u @ ''/topics/'' @ topic a @ ''/records'',
                headers = [(''Content-Type'', ''application/json''),
                           (''Authorization'', ''Basic '' @ b64encode (username a @ '':'' @ password a))],
                payload = JObj [(''records'', JArr [JObj [(''value'', JStr (msg_text a k))]])],
                verify = False, timeout = 30\<rparr>) [0..m - 1]"
    by blast
  then show ?thesis
    by (intro exI [of _ m]) (auto simp add: main_body_loop banner_fields split: sum.splits)
qed





lemma try_block_http_error:
  "400 \<le> status_code r \<Longrightarrow> status_code r < 600 \<Longrightarrow>
   \<exists>msg. try_block (Returns r) = Inl (RequestException msg (Some r))"
  by (simp add: try_block_def raise_for_status_def)

lemma main_body_sent_length: "int (length (sent (main_body a net))) \<le> max 0 (count a)"
proof -
  from main_body_sent [of a net] obtain m where m: "m \<le> max 0 (count a)"
    and s: "sent (main_body a net) =
       map (\<lambda>k. \<lparr>http_method = POST,
                   url = rstrip CHR ''/'' (rest_api_url a) @ ''/topics/'' @ topic a @ ''/records'',
                   headers = [(''Content-Type'', ''application/json''),
                              (''Authorization'', ''Basic '' @ b64encode (username a @ '':'' @ password a))],
                   payload = JObj [(''records'', JArr [JObj [(''value'', JStr (msg_text a k))]])],
                   verify = False, timeout = 30\<rparr>) [0..m - 1]"
    by blast
  have "length (sent (main_body a net)) = nat m"
    unfolding s by simp
  then show ?thesis using m by simp
qed

lemma map_of_in_keys: "(key \<in> fst ` set kvs) = (map_of kvs key \<noteq> None)"
  by (simp add: map_of_eq_None_iff)




lemma report_raises: "\<not> tolerated result \<Longrightarrow> \<exists>e. report i tp result = Inl e"
  apply (cases result)
  apply (auto simp add: report_def has_metadata_def has_offsets_def truthy_def tolerated_def
      py_in_def getitem_def py_len_def getitem0_def py_get_def partition_offset_line_def
      is_object_def map_of_in_keys Let_def type_name_def
      split: json.splits list.splits option.splits if_splits bool.splits sum.splits)
  done

lemma try_block_2xx:
  "200 \<le> status_code r \<Longrightarrow> status_code r < 300 \<Longrightarrow> resp_json r = Inr result \<Longrightarrow>
   try_block (Returns r) = Inr result"
  by (simp add: try_block_def raise_for_status_def response_json_def)

lemma report_string_with_metadata:
  "contains_str ''metadata'' s \<Longrightarrow>
   report i tp (JStr s) =
     Inl (TypeError (''string indices must be integers, not '' @ [CHR 0x27] @ ''str'' @ [CHR 0x27]))"
  by (cases s) (simp_all add: report_def has_metadata_def truthy_def py_in_def getitem_def)

lemma parse_args_no_topic:
  "arg_help cmd = None \<Longrightarrow> arg_topic cmd = None \<Longrightarrow> \<exists>msg. parse_args cmd = UsageError msg"
  by (simp add: parse_args_def split: option.splits count_text.splits)

lemma parse_args_help: "arg_help cmd = Some h \<Longrightarrow> parse_args cmd = Help h"
  by (simp add: parse_args_def)

lemma parse_args_topic:
  "parse_args cmd = Namespace a \<Longrightarrow>
   arg_topic cmd = Some (topic a) \<and>
   parse_args (cmd\<lparr>arg_topic := Some t\<rparr>) = Namespace (a\<lparr>topic := t\<rparr>)"
proof -
  assume p: "parse_args cmd = Namespace a"
  have h: "arg_help cmd = None"
    using p parse_args_help [of cmd] by (cases "arg_help cmd") auto
  show ?thesis
  proof (cases "arg_topic cmd")
    case None
    then show ?thesis using parse_args_no_topic [OF h] p by auto
  next
    case t: (Some t0)
    show ?thesis
    proof (cases "arg_rest_api_url cmd")
      case None
      then show ?thesis using p t h
        by (simp add: parse_args_def split: option.splits count_text.splits)
    next
      case u: (Some u0)
      show ?thesis
      proof (cases "arg_username cmd")
        case None
        then show ?thesis using p t u h
          by (simp add: parse_args_def split: option.splits count_text.splits)
      next
        case n: (Some n0)
        show ?thesis
        proof (cases "arg_password cmd")
          case None
          then show ?thesis using p t u n h
            by (simp add: parse_args_def split: option.splits count_text.splits)
        next
          case (Some p0)
          then show ?thesis using p t u n h
            by (auto simp add: parse_args_def split: option.splits count_text.splits)
        qed
      qed
    qed
  qed
qed

lemma main_body_invalid:
  assumes "\<not> utf8_valid (username a @ '':'' @ password a)"
  shows "sent (main_body a net) = []"
    and "stdout (main_body a net) =
           stdout (banner a (rstrip CHR ''/'' (rest_api_url a)))
             @ (if 0 < count a then [] else [check_mark @ '' All messages sent and delivered''])"
    and "0 < count a \<Longrightarrow>
         exit_code (main_body a net) = 1 \<and>
         (\<exists>msg. stderr (main_body a net) = [cross_mark @ '' Error: '' @ msg])"
proof -
  let ?u = "rstrip CHR ''/'' (rest_api_url a)"
  note l = loop_invalid [OF assms, where net = net and u = ?u and i = 0 and w = "banner a ?u"]
  show "exit_code (main_body a net) = 1 \<and>
         (\<exists>msg. stderr (main_body a net) = [cross_mark @ '' Error: '' @ msg])" if "0 < count a"
  proof -
    from that obtain msg where "fst (loop net a ?u 0 (banner a ?u)) = Inl (UnicodeEncodeError msg)"
      using l(2) by blast
    then show ?thesis by (simp add: main_body_loop l(1) banner_fields str_exn_def)
  qed
  show "sent (main_body a net) = []"
    by (simp add: main_body_loop l(1) banner_fields)
  show "stdout (main_body a net) =
           stdout (banner a ?u)
             @ (if 0 < count a then [] else [check_mark @ '' All messages sent and delivered''])"
  proof (cases "0 < count a")
    case True
    then obtain msg where "fst (loop net a ?u 0 (banner a ?u)) = Inl (UnicodeEncodeError msg)"
      using l(2) by blast
    then show ?thesis using True by (simp add: main_body_loop l(1))
  next
    case False
    then have "fst (loop net a ?u 0 (banner a ?u)) = Inr ()"
      using l(3) by simp
    then show ?thesis using False by (simp add: main_body_loop l(1))
  qed
qed

subsection \<open>The claims\<close>

text \<open>
  C5. For every username and password, the Authorization header of every request the run
  sends is \<open>Basic\<close> followed by a base64 string, and that string decodes to exactly the
  bytes of \<open>username:password\<close>.
\<close>

theorem authorization_decodes:
  "\<forall>r \<in> set (sent (main_body a net)).
     \<exists>b. map_of (headers r) ''Authorization'' = Some (''Basic '' @ b) \<and>
         b64decode b = Some (username a @ '':'' @ password a)"
proof -
  obtain m where
    "sent (snd (loop net a (rstrip CHR ''/'' (rest_api_url a)) 0 (banner a (rstrip CHR ''/'' (rest_api_url a))))) =
       sent (banner a (rstrip CHR ''/'' (rest_api_url a))) @
       map (\<lambda>k. \<lparr>http_method = POST, url = rstrip CHR ''/'' (rest_api_url a) @ ''/topics/'' @ topic a @ ''/records'',
                headers = [(''Content-Type'', ''application/json''),
                           (''Authorization'', ''Basic '' @ b64encode (username a @ '':'' @ password a))],
                payload = JObj [(''records'', JArr [JObj [(''value'', JStr (msg_text a k))]])],
                verify = False, timeout = 30\<rparr>) [0..m - 1]"
    using loop_sent [of 0 a net "rstrip CHR ''/'' (rest_api_url a)" "banner a (rstrip CHR ''/'' (rest_api_url a))"]
    by blast
  then show ?thesis
    by (auto simp add: main_body_loop banner_fields b64decode_b64encode)
qed

theorem authorization_decodes_witness:
  "\<lparr>http_method = POST, url = ''https://host/topics/T/records'',
     headers = [(''Content-Type'', ''application/json''), (''Authorization'', ''Basic cHA6c2VjcmV0'')],
     payload = JObj [(''records'', JArr [JObj [(''value'', JStr ''Hello'')]])],
     verify = False, timeout = 30\<rparr>
   \<in> set (sent (main_body \<lparr>topic = ''T'', rest_api_url = ''https://host/'', username = ''pp'',
                    password = ''secret'', message = ''Hello'', count = 1\<rparr> (always (ok (JObj [])))))
   \<and> b64decode ''cHA6c2VjcmV0'' = Some ''pp:secret''"
proof -
  let ?r = "\<lparr>http_method = POST, url = ''https://host/topics/T/records'',
     headers = [(''Content-Type'', ''application/json''), (''Authorization'', ''Basic cHA6c2VjcmV0'')],
     payload = JObj [(''records'', JArr [JObj [(''value'', JStr ''Hello'')]])],
     verify = False, timeout = 30\<rparr>"
  let ?a = "\<lparr>topic = ''T'', rest_api_url = ''https://host/'', username = ''pp'',
                    password = ''secret'', message = ''Hello'', count = 1\<rparr>"
  have m: "?r \<in> set (sent (main_body ?a (always (ok (JObj [])))))"
    by code_simp
  from authorization_decodes [of ?a "always (ok (JObj []))"] m
  have "\<exists>b. map_of (headers ?r) ''Authorization'' = Some (''Basic '' @ b) \<and>
         b64decode b = Some (username ?a @ '':'' @ password ?a)"
    by (rule bspec)
  then have "b64decode ''cHA6c2VjcmV0'' = Some ''pp:secret''"
    by auto
  with m show ?thesis by simp
qed






text \<open>
  C1. Every request a run hands to \<^verbatim>\<open>requests.post\<close> is a POST to the normalised base URL
  followed by \<open>/topics/{topic}/records\<close>, with the header Content-Type: application/json and
  the header Authorization: Basic base64(username:password), and its JSON body is the object
  whose only member \<open>records\<close> is an array of exactly one record, whose only member
  \<open>value\<close> is the message text of one of the passes of the loop.
\<close>

theorem request_shape:
  "\<forall>r \<in> set (sent (main_body a net)).
     \<exists>i. 0 \<le> i \<and> i < count a \<and>
       r = \<lparr>http_method = POST,
            url = rstrip CHR ''/'' (rest_api_url a) @ ''/topics/'' @ topic a @ ''/records'',
            headers = [(''Content-Type'', ''application/json''),
                       (''Authorization'', ''Basic '' @ b64encode (username a @ '':'' @ password a))],
            payload = JObj [(''records'', JArr [JObj [(''value'', JStr (msg_text a i))]])],
            verify = False, timeout = 30\<rparr>"
proof -
  from main_body_sent [of a net] obtain m where m: "m \<le> max 0 (count a)"
    "sent (main_body a net) =
       map (\<lambda>k. \<lparr>http_method = POST,
                   url = rstrip CHR ''/'' (rest_api_url a) @ ''/topics/'' @ topic a @ ''/records'',
                   headers = [(''Content-Type'', ''application/json''),
                              (''Authorization'', ''Basic '' @ b64encode (username a @ '':'' @ password a))],
                   payload = JObj [(''records'', JArr [JObj [(''value'', JStr (msg_text a k))]])],
                   verify = False, timeout = 30\<rparr>) [0..m - 1]"
    by blast
  have "i < count a" if "i < m" "0 \<le> i" for i
    using that m(1) by (simp add: max_def split: if_splits)
  then show ?thesis
    unfolding m(2) by auto
qed

theorem request_shape_witness:
  "\<lparr>http_method = POST, url = ''https://host/topics/T/records'',
     headers = [(''Content-Type'', ''application/json''), (''Authorization'', ''Basic cHA6c2VjcmV0'')],
     payload = JObj [(''records'', JArr [JObj [(''value'', JStr ''Hello (2/2)'')]])],
     verify = False, timeout = 30\<rparr>
   \<in> set (sent (main_body \<lparr>topic = ''T'', rest_api_url = ''https://host//'', username = ''pp'',
                    password = ''secret'', message = ''Hello'', count = 2\<rparr> (always (ok (JObj [])))))
   \<and> (\<exists>i. 0 \<le> i \<and> i < 2 \<and>
        ''Hello (2/2)'' = msg_text \<lparr>topic = ''T'', rest_api_url = ''https://host//'', username = ''pp'',
                    password = ''secret'', message = ''Hello'', count = 2\<rparr> i)"
proof -
  let ?r = "\<lparr>http_method = POST, url = ''https://host/topics/T/records'',
     headers = [(''Content-Type'', ''application/json''), (''Authorization'', ''Basic cHA6c2VjcmV0'')],
     payload = JObj [(''records'', JArr [JObj [(''value'', JStr ''Hello (2/2)'')]])],
     verify = False, timeout = 30\<rparr>"
  let ?a = "\<lparr>topic = ''T'', rest_api_url = ''https://host//'', username = ''pp'',
                    password = ''secret'', message = ''Hello'', count = 2\<rparr>"
  have m: "?r \<in> set (sent (main_body ?a (always (ok (JObj [])))))"
    by code_simp
  from request_shape [of ?a "always (ok (JObj []))"] m
  have "\<exists>i. 0 \<le> i \<and> i < count ?a \<and>
       ?r = \<lparr>http_method = POST,
            url = rstrip CHR ''/'' (rest_api_url ?a) @ ''/topics/'' @ topic ?a @ ''/records'',
            headers = [(''Content-Type'', ''application/json''),
                       (''Authorization'', ''Basic '' @ b64encode (username ?a @ '':'' @ password ?a))],
            payload = JObj [(''records'', JArr [JObj [(''value'', JStr (msg_text ?a i))]])],
            verify = False, timeout = 30\<rparr>"
    by (rule bspec)
  then have "\<exists>i. 0 \<le> i \<and> i < 2 \<and> ''Hello (2/2)'' = msg_text ?a i"
    by auto
  with m show ?thesis by simp
qed

text \<open>
  C4. The k-th request from 0 is sent by the pass with \<open>i = k\<close>, and \<open>k\<close> is below the
  count. Its message text is the template itself when the count is 1; otherwise it is the
  template followed by a space and, in parentheses, the 1-based index \<open>k + 1\<close>, a slash and
  the count.
\<close>

theorem message_text:
  "k < length (sent (main_body a net)) \<Longrightarrow>
   int k < count a \<and>
   payload (sent (main_body a net) ! k) =
     JObj [(''records'', JArr [JObj [(''value'',
       JStr (if count a = 1 then message a
             else message a @ '' ('' @ str_int (int k + 1) @ ''/'' @ str_int (count a) @ '')''))]])]"
proof -
  assume k: "k < length (sent (main_body a net))"
  from main_body_sent [of a net] obtain m where m: "m \<le> max 0 (count a)"
    "sent (main_body a net) =
       map (\<lambda>k. \<lparr>http_method = POST,
                   url = rstrip CHR ''/'' (rest_api_url a) @ ''/topics/'' @ topic a @ ''/records'',
                   headers = [(''Content-Type'', ''application/json''),
                              (''Authorization'', ''Basic '' @ b64encode (username a @ '':'' @ password a))],
                   payload = JObj [(''records'', JArr [JObj [(''value'', JStr (msg_text a k))]])],
                   verify = False, timeout = 30\<rparr>) [0..m - 1]"
    by blast
  have km: "int k < m" using k unfolding m(2) by simp
  then have n: "[0..m - 1] ! k = int k" by (simp add: nth_upto)
  have c: "int k < count a"
    using km m(1) by (simp add: max_def split: if_splits)
  have "k < length [0..m - 1]" using km by simp
  then have "payload (sent (main_body a net) ! k) =
      JObj [(''records'', JArr [JObj [(''value'', JStr (msg_text a (int k)))]])]"
    unfolding m(2) using n by simp
  then show ?thesis
    using c by (simp add: msg_text_def)
qed

theorem message_text_witness:
  "2 < length (sent (main_body \<lparr>topic = ''T'', rest_api_url = ''https://host'', username = ''pp'',
                    password = ''secret'', message = ''Hello'', count = 3\<rparr> (always (ok (JObj []))))) \<and>
   payload (sent (main_body \<lparr>topic = ''T'', rest_api_url = ''https://host'', username = ''pp'',
                    password = ''secret'', message = ''Hello'', count = 3\<rparr> (always (ok (JObj [])))) ! 2) =
     JObj [(''records'', JArr [JObj [(''value'', JStr ''Hello (3/3)'')]])]"
proof -
  let ?a = "\<lparr>topic = ''T'', rest_api_url = ''https://host'', username = ''pp'',
                    password = ''secret'', message = ''Hello'', count = 3\<rparr>"
  have h: "2 < length (sent (main_body ?a (always (ok (JObj [])))))"
    by code_simp
  have d: "str_int 3 = ''3''" by code_simp
  from message_text [OF h] h d show ?thesis by simp
qed



text \<open>
  C2, as the code has it. When the j-th request is answered with a status from 400 to 599,
  the statuses \<^verbatim>\<open>raise_for_status\<close> rejects, the run stops there: exactly \<open>j\<close> requests
  have been sent, \<open>j\<close> is at most the count, the exit status is 1, and the error stream
  holds the error line, the status code, the response body and the final error line.
\<close>

theorem http_error_aborts:
  assumes "1 \<le> j" and "j \<le> length (sent (main_body a net))" and "net (j - 1) = Returns r"
    and "400 \<le> status_code r" and "status_code r < 600"
  shows "length (sent (main_body a net)) = j \<and> int j \<le> count a \<and>
         exit_code (main_body a net) = 1 \<and>
         (\<exists>msg. stderr (main_body a net) =
            [cross_mark @ '' REST API error: '' @ msg,
             ''   Status: '' @ str_int (status_code r),
             ''   Response: '' @ resp_text r,
             cross_mark @ '' Error: '' @ msg])"
proof -
  let ?u = "rstrip CHR ''/'' (rest_api_url a)"
  let ?L = "loop net a ?u 0 (banner a ?u)"
  from assms(4,5) obtain msg where t: "try_block (net (j - 1)) = Inl (RequestException msg (Some r))"
    using try_block_http_error [of r] assms(3) by auto
  have v: "utf8_valid (username a @ '':'' @ password a)"
    using assms(1,2) main_body_invalid(1) [of a net] by (cases "utf8_valid (username a @ '':'' @ password a)") auto
  have "j - 1 < length (sent (snd ?L))"
    using assms(1,2) by (simp add: main_body_loop)
  with t v have f: "fst ?L = Inl (RequestException msg (Some r))"
    and l: "length (sent (snd ?L)) = j - 1 + 1"
    and e: "stderr (snd ?L) = stderr (except_block (RequestException msg (Some r)) (banner a ?u))"
    using loop_failure [where i = 0 and w = "banner a ?u" and n = "j - 1" and net = net and a = a
        and u = ?u and e = "RequestException msg (Some r)"]
    by (simp_all add: banner_fields)
  have len: "length (sent (main_body a net)) = j"
    using l assms(1) by (simp add: main_body_loop)
  have c: "int j \<le> count a"
    using main_body_sent_length [of a net] len assms(1) by (simp add: max_def split: if_splits)
  have "stderr (main_body a net) =
            [cross_mark @ '' REST API error: '' @ msg,
             ''   Status: '' @ str_int (status_code r),
             ''   Response: '' @ resp_text r,
             cross_mark @ '' Error: '' @ msg]"
    by (simp add: main_body_loop f e except_block_def eprint_def banner_fields str_exn_def)
  then show ?thesis
    using len c f by (simp add: main_body_loop)
qed

theorem http_error_aborts_witness:
  "(1::nat) \<le> 2 \<and>
   script [ok (JObj []),
           Returns \<lparr>status_code = 404, reason = ''Not Found'',
                    resp_url = ''https://host/topics/T/records'', resp_text = ''no such topic'',
                    resp_json = Inl (NotJSON ''Expecting value: line 1 column 1 (char 0)'')\<rparr>]
          (ok (JObj [])) (2 - 1) =
     Returns \<lparr>status_code = 404, reason = ''Not Found'',
              resp_url = ''https://host/topics/T/records'', resp_text = ''no such topic'',
              resp_json = Inl (NotJSON ''Expecting value: line 1 column 1 (char 0)'')\<rparr> \<and>
   length (sent (main_body \<lparr>topic = ''T'', rest_api_url = ''https://host'', username = ''pp'',
                    password = ''secret'', message = ''Hello'', count = 3\<rparr>
      (script [ok (JObj []),
           Returns \<lparr>status_code = 404, reason = ''Not Found'',
                    resp_url = ''https://host/topics/T/records'', resp_text = ''no such topic'',
                    resp_json = Inl (NotJSON ''Expecting value: line 1 column 1 (char 0)'')\<rparr>]
          (ok (JObj []))))) = 2 \<and>
   exit_code (main_body \<lparr>topic = ''T'', rest_api_url = ''https://host'', username = ''pp'',
                    password = ''secret'', message = ''Hello'', count = 3\<rparr>
      (script [ok (JObj []),
           Returns \<lparr>status_code = 404, reason = ''Not Found'',
                    resp_url = ''https://host/topics/T/records'', resp_text = ''no such topic'',
                    resp_json = Inl (NotJSON ''Expecting value: line 1 column 1 (char 0)'')\<rparr>]
          (ok (JObj [])))) = 1 \<and>
   ''   Status: 404'' \<in> set (stderr (main_body \<lparr>topic = ''T'', rest_api_url = ''https://host'', username = ''pp'',
                    password = ''secret'', message = ''Hello'', count = 3\<rparr>
      (script [ok (JObj []),
           Returns \<lparr>status_code = 404, reason = ''Not Found'',
                    resp_url = ''https://host/topics/T/records'', resp_text = ''no such topic'',
                    resp_json = Inl (NotJSON ''Expecting value: line 1 column 1 (char 0)'')\<rparr>]
          (ok (JObj [])))))"
proof -
  let ?r = "\<lparr>status_code = 404, reason = ''Not Found'',
                    resp_url = ''https://host/topics/T/records'', resp_text = ''no such topic'',
                    resp_json = Inl (NotJSON ''Expecting value: line 1 column 1 (char 0)'')\<rparr>"
  let ?net = "script [ok (JObj []), Returns ?r] (ok (JObj []))"
  let ?a = "\<lparr>topic = ''T'', rest_api_url = ''https://host'', username = ''pp'',
                    password = ''secret'', message = ''Hello'', count = 3\<rparr>"
  have h1: "(1::nat) \<le> 2" by simp
  have h2: "2 \<le> length (sent (main_body ?a ?net))" by code_simp
  have h3: "?net (2 - 1) = Returns ?r" by (simp add: script_def)
  have h4: "400 \<le> status_code ?r" by simp
  have h5: "status_code ?r < 600" by simp
  have d: "str_int 404 = ''404''" by code_simp
  from http_error_aborts [OF h1 h2 h3 h4 h5] h3 d show ?thesis
    by auto
qed

text \<open>
  C2 as stated speaks of every non-2xx status. A status that is neither 2xx nor in 400 to 599
  is not an error for \<^verbatim>\<open>raise_for_status\<close>: with the reply 300 and the JSON body \<open>{}\<close> to
  each request and a count of 2, the first request is answered with a non-2xx status, yet
  two requests are sent, nothing reaches the error stream and the exit status is 0.
\<close>

theorem status_300_continues:
  "always (Returns \<lparr>status_code = 300, reason = ''Multiple Choices'',
                     resp_url = ''https://host/topics/T/records'', resp_text = ''{}'',
                     resp_json = Inr (JObj [])\<rparr>) 0 =
     Returns \<lparr>status_code = 300, reason = ''Multiple Choices'',
              resp_url = ''https://host/topics/T/records'', resp_text = ''{}'',
              resp_json = Inr (JObj [])\<rparr> \<and>
   length (sent (main_body \<lparr>topic = ''T'', rest_api_url = ''https://host'', username = ''pp'',
                    password = ''secret'', message = ''Hello'', count = 2\<rparr>
      (always (Returns \<lparr>status_code = 300, reason = ''Multiple Choices'',
                     resp_url = ''https://host/topics/T/records'', resp_text = ''{}'',
                     resp_json = Inr (JObj [])\<rparr>)))) = 2 \<and>
   exit_code (main_body \<lparr>topic = ''T'', rest_api_url = ''https://host'', username = ''pp'',
                    password = ''secret'', message = ''Hello'', count = 2\<rparr>
      (always (Returns \<lparr>status_code = 300, reason = ''Multiple Choices'',
                     resp_url = ''https://host/topics/T/records'', resp_text = ''{}'',
                     resp_json = Inr (JObj [])\<rparr>))) = 0 \<and>
   stderr (main_body \<lparr>topic = ''T'', rest_api_url = ''https://host'', username = ''pp'',
                    password = ''secret'', message = ''Hello'', count = 2\<rparr>
      (always (Returns \<lparr>status_code = 300, reason = ''Multiple Choices'',
                     resp_url = ''https://host/topics/T/records'', resp_text = ''{}'',
                     resp_json = Inr (JObj [])\<rparr>))) = []"
  by code_simp




text \<open>
  C9, as the code has it. The topic is required: an invocation without \<^verbatim>\<open>--topic\<close>, and
  without a help flag, is a usage error, with nothing printed to the standard output, no
  request sent and exit status 2. With a help flag the parser writes the help text and the
  process ends with status 0, whatever else is given. An invocation that is accepted runs
  with the topic exactly as given, and it is still accepted, with the empty topic, when the
  empty text is given as the topic.
\<close>

theorem topic_required:
  "(arg_help cmd = None \<and> arg_topic cmd = None \<longrightarrow>
      sent (main cmd net) = [] \<and> stdout (main cmd net) = [] \<and> exit_code (main cmd net) = 2 \<and>
      (\<exists>msg. stderr (main cmd net) = [''error: '' @ msg])) \<and>
   (\<forall>h. arg_help cmd = Some h \<longrightarrow>
      main cmd net = \<lparr>stdout = [h], stderr = [], sent = [], exit_code = 0\<rparr>) \<and>
   (\<forall>a. parse_args cmd = Namespace a \<longrightarrow>
      arg_topic cmd = Some (topic a) \<and> main cmd net = main_body a net \<and>
      parse_args (cmd\<lparr>arg_topic := Some []\<rparr>) = Namespace (a\<lparr>topic := []\<rparr>))"
proof (intro conjI impI allI)
  assume "arg_help cmd = None \<and> arg_topic cmd = None"
  then obtain msg where m: "parse_args cmd = UsageError msg"
    using parse_args_no_topic by blast
  show "sent (main cmd net) = []" "stdout (main cmd net) = []" "exit_code (main cmd net) = 2"
    "\<exists>msg. stderr (main cmd net) = [''error: '' @ msg]"
    by (simp_all add: main_def m)
next
  fix h assume "arg_help cmd = Some h"
  then show "main cmd net = \<lparr>stdout = [h], stderr = [], sent = [], exit_code = 0\<rparr>"
    by (simp add: main_def parse_args_help)
next
  fix a assume p: "parse_args cmd = Namespace a"
  show "arg_topic cmd = Some (topic a)"
    "parse_args (cmd\<lparr>arg_topic := Some []\<rparr>) = Namespace (a\<lparr>topic := []\<rparr>)"
    using parse_args_topic [OF p] by simp_all
  show "main cmd net = main_body a net"
    by (simp add: main_def p)
qed

theorem topic_required_witness:
  "arg_help \<lparr>arg_help = None, arg_topic = None, arg_rest_api_url = Some ''https://host'',
             arg_username = Some ''pp'', arg_password = Some ''secret'', arg_message = None,
             arg_count = None\<rparr> = None \<and>
   arg_topic \<lparr>arg_help = None, arg_topic = None, arg_rest_api_url = Some ''https://host'',
              arg_username = Some ''pp'', arg_password = Some ''secret'', arg_message = None,
              arg_count = None\<rparr> = None \<and>
   main \<lparr>arg_help = None, arg_topic = None, arg_rest_api_url = Some ''https://host'',
          arg_username = Some ''pp'', arg_password = Some ''secret'', arg_message = None,
          arg_count = None\<rparr>
     (always (ok (JObj []))) =
     \<lparr>stdout = [], stderr = [''error: the following arguments are required: --topic''],
       sent = [], exit_code = 2\<rparr> \<and>
   main \<lparr>arg_help = Some ''usage: producer.py [-h] --topic TOPIC'', arg_topic = None,
          arg_rest_api_url = None, arg_username = None, arg_password = None, arg_message = None,
          arg_count = None\<rparr>
     (always (ok (JObj []))) =
     \<lparr>stdout = [''usage: producer.py [-h] --topic TOPIC''], stderr = [], sent = [],
       exit_code = 0\<rparr> \<and>
   parse_args \<lparr>arg_help = None, arg_topic = Some ''T'', arg_rest_api_url = Some ''https://host'',
                arg_username = Some ''pp'', arg_password = Some ''secret'', arg_message = None,
                arg_count = Some (Literal 3)\<rparr> =
     Namespace \<lparr>topic = ''T'', rest_api_url = ''https://host'', username = ''pp'',
                 password = ''secret'', message = ''Hello from REST API'', count = 3\<rparr> \<and>
   parse_args \<lparr>arg_help = None, arg_topic = Some [], arg_rest_api_url = Some ''https://host'',
                arg_username = Some ''pp'', arg_password = Some ''secret'', arg_message = None,
                arg_count = Some (Literal 3)\<rparr> =
     Namespace \<lparr>topic = [], rest_api_url = ''https://host'', username = ''pp'',
                 password = ''secret'', message = ''Hello from REST API'', count = 3\<rparr>"
proof -
  let ?c0 = "\<lparr>arg_help = None, arg_topic = None, arg_rest_api_url = Some ''https://host'',
             arg_username = Some ''pp'', arg_password = Some ''secret'', arg_message = None,
             arg_count = None\<rparr>"
  let ?ch = "\<lparr>arg_help = Some ''usage: producer.py [-h] --topic TOPIC'', arg_topic = None,
          arg_rest_api_url = None, arg_username = None, arg_password = None, arg_message = None,
          arg_count = None\<rparr>"
  let ?c1 = "\<lparr>arg_help = None, arg_topic = Some ''T'', arg_rest_api_url = Some ''https://host'',
                arg_username = Some ''pp'', arg_password = Some ''secret'', arg_message = None,
                arg_count = Some (Literal 3)\<rparr>"
  let ?a1 = "\<lparr>topic = ''T'', rest_api_url = ''https://host'', username = ''pp'',
                 password = ''secret'', message = ''Hello from REST API'', count = 3\<rparr>"
  let ?net = "always (ok (JObj []))"
  have p: "parse_args ?c1 = Namespace ?a1"
    by (simp add: parse_args_def)
  have m: "main ?c0 ?net =
     \<lparr>stdout = [], stderr = [''error: the following arguments are required: --topic''],
       sent = [], exit_code = 2\<rparr>"
    by (simp add: main_def parse_args_def)
  have "exit_code (main ?c0 ?net) = 2"
    using topic_required [of ?c0 ?net] by simp
  moreover have "main ?ch ?net =
     \<lparr>stdout = [''usage: producer.py [-h] --topic TOPIC''], stderr = [], sent = [], exit_code = 0\<rparr>"
    using topic_required [of ?ch ?net] by simp
  moreover have "parse_args (?c1\<lparr>arg_topic := Some []\<rparr>) = Namespace (?a1\<lparr>topic := []\<rparr>)"
    using topic_required [of ?c1 ?net] p by blast
  ultimately show ?thesis using p m by simp
qed

text \<open>
  C9 as stated has the empty topic rejected. \<^verbatim>\<open>required=True\<close> only asks for the flag to be
  present: with \<^verbatim>\<open>--topic ""\<close> the run sends its request to \<open>/topics//records\<close> and ends
  with exit status 0.
\<close>

theorem empty_topic_accepted:
  "map url (sent (main \<lparr>arg_help = None, arg_topic = Some [],
                        arg_rest_api_url = Some ''https://host'',
                        arg_username = Some ''pp'', arg_password = Some ''secret'',
                        arg_message = None, arg_count = None\<rparr>
                   (always (ok (JObj []))))) = [''https://host/topics//records''] \<and>
   exit_code (main \<lparr>arg_help = None, arg_topic = Some [],
                     arg_rest_api_url = Some ''https://host'',
                     arg_username = Some ''pp'', arg_password = Some ''secret'',
                     arg_message = None, arg_count = None\<rparr>
                (always (ok (JObj [])))) = 0"
  by code_simp

text \<open>
  C10. When the count is at least 1 and the first reply has a 2xx status and a body that is a
  JSON string containing \<open>metadata\<close>, the membership test succeeds on the string, the
  indexing \<^verbatim>\<open>result['metadata']\<close> raises a TypeError, and the run prints one error line to
  the error stream and exits with status 1, with nothing but the banner on the standard
  output. When the credentials are UTF-8, so that the request is sent, that run has sent one
  request and the error line is the one of the TypeError.
\<close>

theorem string_body_with_metadata_fails:
  assumes "1 \<le> count a" and "net 0 = Returns r" and "200 \<le> status_code r"
    and "status_code r < 300" and "resp_json r = Inr (JStr s)" and "contains_str ''metadata'' s"
  shows "py_in ''metadata'' (JStr s) = Inr True \<and>
         getitem (JStr s) ''metadata'' =
           Inl (TypeError (''string indices must be integers, not '' @ [CHR 0x27] @ ''str''
                             @ [CHR 0x27])) \<and>
         exit_code (main_body a net) = 1 \<and>
         (\<exists>msg. stderr (main_body a net) = [cross_mark @ '' Error: '' @ msg]) \<and>
         stdout (main_body a net) =
           [rocket @ '' Producing messages via REST API...'', ''   Topic: '' @ topic a,
            ''   REST API: '' @ rstrip CHR ''/'' (rest_api_url a), ''   Username: '' @ username a, []] \<and>
         (utf8_valid (username a @ '':'' @ password a) \<longrightarrow>
            length (sent (main_body a net)) = 1 \<and>
            stderr (main_body a net) =
              [cross_mark @ '' Error: string indices must be integers, not '' @ [CHR 0x27] @ ''str''
                 @ [CHR 0x27]])"
proof (cases "utf8_valid (username a @ '':'' @ password a)")
  case v: True
  let ?u = "rstrip CHR ''/'' (rest_api_url a)"
  let ?e = "TypeError (''string indices must be integers, not '' @ [CHR 0x27] @ ''str'' @ [CHR 0x27])"
  have t: "try_block (net (length (sent (banner a ?u)))) = Inr (JStr s)"
    using assms(2-5) try_block_2xx [of r "JStr s"] by (simp add: banner_fields)
  have f: "fst (iteration net a ?u 0 (banner a ?u)) = Inl ?e"
    and o: "stdout (snd (iteration net a ?u 0 (banner a ?u))) = stdout (banner a ?u)"
    and e: "stderr (snd (iteration net a ?u 0 (banner a ?u))) = []"
    using t report_string_with_metadata [OF assms(6), of 0 "topic a"]
    by (simp_all add: iteration_fst_stdout_stderr [OF v] banner_fields)
  have l: "loop net a ?u 0 (banner a ?u) = iteration net a ?u 0 (banner a ?u)"
    using assms(1) f by (simp add: loop_unfold [of net a ?u 0])
  show ?thesis
    using assms(6) f o e
    by (simp add: main_body_loop l iteration_sent [OF v] banner_fields py_in_def getitem_def
        str_exn_def)
next
  case False
  have c: "0 < count a" using assms(1) by simp
  show ?thesis
    using assms(6) False c main_body_invalid(2) [OF False, of net] main_body_invalid(3) [OF False c, of net]
    by (simp add: banner_fields py_in_def getitem_def)
qed

theorem string_body_with_metadata_fails_witness:
  "(1::int) \<le> count \<lparr>topic = ''T'', rest_api_url = ''https://host'', username = ''pp'',
                        password = ''secret'', message = ''Hello'', count = 1\<rparr> \<and>
   contains_str ''metadata'' ''metadata'' \<and>
   utf8_valid (''pp'' @ '':'' @ ''secret'') \<and>
   exit_code (main_body \<lparr>topic = ''T'', rest_api_url = ''https://host'', username = ''pp'',
                          password = ''secret'', message = ''Hello'', count = 1\<rparr>
                (always (ok (JStr ''metadata'')))) = 1 \<and>
   length (sent (main_body \<lparr>topic = ''T'', rest_api_url = ''https://host'', username = ''pp'',
                          password = ''secret'', message = ''Hello'', count = 1\<rparr>
                (always (ok (JStr ''metadata''))))) = 1 \<and>
   stderr (main_body \<lparr>topic = ''T'', rest_api_url = ''https://host'', username = ''pp'',
                          password = ''secret'', message = ''Hello'', count = 1\<rparr>
                (always (ok (JStr ''metadata'')))) =
     [cross_mark @ '' Error: string indices must be integers, not '' @ [CHR 0x27] @ ''str''
        @ [CHR 0x27]] \<and>
   length (stdout (main_body \<lparr>topic = ''T'', rest_api_url = ''https://host'', username = ''pp'',
                          password = ''secret'', message = ''Hello'', count = 1\<rparr>
                (always (ok (JStr ''metadata''))))) = 5"
proof -
  let ?a = "\<lparr>topic = ''T'', rest_api_url = ''https://host'', username = ''pp'',
                          password = ''secret'', message = ''Hello'', count = 1\<rparr>"
  let ?r = "\<lparr>status_code = 200, reason = ''OK'', resp_url = [], resp_text = [],
             resp_json = Inr (JStr ''metadata'')\<rparr>"
  let ?net = "always (ok (JStr ''metadata''))"
  have h1: "1 \<le> count ?a" by simp
  have h2: "?net 0 = Returns ?r" by (simp add: always_def ok_def)
  have h3: "200 \<le> status_code ?r" by simp
  have h4: "status_code ?r < 300" by simp
  have h5: "resp_json ?r = Inr (JStr ''metadata'')" by simp
  have h6: "contains_str ''metadata'' ''metadata''" by simp
  have h7: "utf8_valid (username ?a @ '':'' @ password ?a)" by code_simp
  from string_body_with_metadata_fails [where net = ?net and a = ?a, OF h1 h2 h3 h4 h5 h6] h7
  have c: "exit_code (main_body ?a ?net) = 1"
    and n: "length (sent (main_body ?a ?net)) = 1"
    and e: "stderr (main_body ?a ?net) =
     [cross_mark @ '' Error: string indices must be integers, not '' @ [CHR 0x27] @ ''str''
        @ [CHR 0x27]]"
    and o: "stdout (main_body ?a ?net) =
           [rocket @ '' Producing messages via REST API...'', ''   Topic: '' @ topic ?a,
            ''   REST API: '' @ rstrip CHR ''/'' (rest_api_url ?a), ''   Username: '' @ username ?a, []]"
    by blast+
  have "length (stdout (main_body ?a ?net)) = 5"
    unfolding o by simp
  moreover have "utf8_valid (''pp'' @ '':'' @ ''secret'')"
    using h7 by simp
  ultimately show ?thesis
    using c n e h1 h6 by blast
qed

end
